theory Spec2Isabelle
  imports Complex_Main
begin

section \<open>Data model of the backtesting engine\<close>

text \<open>
  The engine of \<^verbatim>\<open>backtester.py\<close> computes with Python floats. They are modelled as
  \<^typ>\<open>real\<close>: every arithmetic expression of the source is kept as it is written, and is
  read in exact arithmetic (no rounding, no infinities, no NaN). Division by a zero
  float raises \<^verbatim>\<open>ZeroDivisionError\<close> in Python; the model returns that exception as a
  value. Timestamps (the index of the DataFrame) are modelled as integers.
\<close>

type_synonym timestamp = int

datatype exn = ZeroDivisionError | IndexError

text \<open>One row of the OHLCV DataFrame together with its index value.\<close>

record candle =
  c_timestamp :: timestamp
  open_price :: real
  high_price :: real
  low_price :: real
  close_price :: real
  volume :: real

text \<open>
  The \<^verbatim>\<open>trade_info\<close> dictionary. The key \<^verbatim>\<open>cost_usdt\<close> is present for BUY_LONG and
  CLOSE_SHORT, the key \<^verbatim>\<open>revenue_usdt\<close> for CLOSE_LONG and SELL_SHORT; an absent key is
  \<open>None\<close>.
\<close>

record trade_info =
  t_timestamp :: timestamp
  t_type :: string
  t_price :: real
  amount_coins :: real
  cost_usdt :: "real option"
  revenue_usdt :: "real option"
  balance_after_trade :: real
  current_position :: real
  pnl_usdt :: real

record equity_sample =
  e_timestamp :: timestamp
  equity :: real

text \<open>
  What the engine prints, one constructor per \<^verbatim>\<open>print\<close> statement with the values it
  interpolates (the banner of the constructor and the report of \<^verbatim>\<open>display_results\<close> are
  one message each).
\<close>

datatype message =
    Initialized real real nat
  | Err_buy_in_short timestamp real
  | Err_insufficient_balance_to_buy timestamp real
  | Err_amount_percent timestamp real
  | Long_opened timestamp real real real real real real
  | Err_no_long_to_close timestamp
  | Long_closed timestamp real real real
  | Err_already_short timestamp real
  | Err_sell_in_long timestamp real
  | Err_short_too_small timestamp real real
  | Short_opened timestamp real real real real real real
  | Err_no_short_to_close timestamp
  | Critical_insufficient_balance_simulation_aborted timestamp real real
  | Short_closed timestamp real real real real real
  | Unknown_order_type string
  | Starting_backtest
  | Backtest_completed
  | Results_header
  | Final_equity_with_open_position real real
  | Final_equity real
  | Total_profit_loss real
  | Percentage_profit_loss real
  | Trade_counts nat nat nat
  | Closed_pnl real

text \<open>The fields of a \<^verbatim>\<open>Backtester\<close> object, and the standard output it writes to.\<close>

record backtester =
  data :: "candle list"
  initial_balance :: real
  current_balance :: real
  fee :: real
  position :: real
  entry_price :: real
  trade_log :: "trade_info list"
  equity_log :: "equity_sample list"
  stdout :: "message list"

definition print :: "backtester \<Rightarrow> message \<Rightarrow> backtester" where
  "print self m = self\<lparr>stdout := stdout self @ [m]\<rparr>"

text \<open>
  \<^verbatim>\<open>Backtester.__init__\<close>. The type checks of the constructor (DataFrame, DatetimeIndex,
  required columns) hold by the type of \<open>data\<close> here.
\<close>

definition init :: "candle list \<Rightarrow> real \<Rightarrow> real \<Rightarrow> backtester" where
  "init df initial_bal fee_rate =
     \<lparr>data = df, initial_balance = initial_bal, current_balance = initial_bal,
      fee = fee_rate, position = 0, entry_price = 0, trade_log = [], equity_log = [],
      stdout = [Initialized initial_bal (fee_rate * 100) (length df)]\<rparr>"

section \<open>Order execution\<close>

definition MIN_ORDER_USDT :: real where
  "MIN_ORDER_USDT = 5"

text \<open>
  \<^verbatim>\<open>Backtester._execute_order\<close>: the result is the exception raised, or the boolean
  returned together with the object after the call.
\<close>

definition execute_order ::
  "backtester \<Rightarrow> string \<Rightarrow> real \<Rightarrow> timestamp \<Rightarrow> real \<Rightarrow> exn + (bool \<times> backtester)" where
  "execute_order self order_type price ts amount_usdt_percent =
    (if order_type = ''BUY_LONG'' then
       (if position self > 0 then Inr (False, self)
        else if position self < 0 then
          Inr (False, print self (Err_buy_in_short ts (position self)))
        else if current_balance self \<le> 0 then
          Inr (False, print self (Err_insufficient_balance_to_buy ts (current_balance self)))
        else if \<not> (0 < amount_usdt_percent \<and> amount_usdt_percent \<le> 1) then
          Inr (False, print self (Err_amount_percent ts amount_usdt_percent))
        else
          (let usdt_to_spend = current_balance self * amount_usdt_percent in
           if usdt_to_spend < MIN_ORDER_USDT then Inr (False, self)
           else if price = 0 then Inl ZeroDivisionError
           else
             (let amount = (usdt_to_spend / price) * (1 - fee self);
                  cost = usdt_to_spend;
                  self1 = self\<lparr>current_balance := current_balance self - cost,
                               position := amount, entry_price := price\<rparr>;
                  info = \<lparr>t_timestamp = ts, t_type = ''BUY_LONG'', t_price = price,
                          amount_coins = amount, cost_usdt = Some cost,
                          revenue_usdt = None,
                          balance_after_trade = current_balance self1,
                          current_position = position self1, pnl_usdt = 0\<rparr>;
                  self2 = print self1
                    (Long_opened ts amount price cost (amount_usdt_percent * 100)
                       (current_balance self1) (position self1))
              in Inr (True, self2\<lparr>trade_log := trade_log self2 @ [info]\<rparr>))))
     else if order_type = ''CLOSE_LONG'' then
       (if position self \<le> 0 then Inr (False, print self (Err_no_long_to_close ts))
        else
          (let gross_revenue_usdt = position self * price;
               net_revenue_usdt = gross_revenue_usdt * (1 - fee self);
               initial_position_cost_usdt = position self * entry_price self;
               profit_loss = net_revenue_usdt - initial_position_cost_usdt;
               self1 = self\<lparr>current_balance := current_balance self + net_revenue_usdt,
                            position := 0, entry_price := 0\<rparr>;
               info = \<lparr>t_timestamp = ts, t_type = ''CLOSE_LONG'', t_price = price,
                       amount_coins = 0, cost_usdt = None,
                       revenue_usdt = Some net_revenue_usdt,
                       balance_after_trade = current_balance self1,
                       current_position = position self1, pnl_usdt = profit_loss\<rparr>;
               self2 = print self1
                 (Long_closed ts net_revenue_usdt profit_loss (current_balance self1))
           in Inr (True, self2\<lparr>trade_log := trade_log self2 @ [info]\<rparr>)))
     else if order_type = ''SELL_SHORT'' then
       (if position self < 0 then
          Inr (False, print self (Err_already_short ts (position self)))
        else if position self > 0 then
          Inr (False, print self (Err_sell_in_long ts (position self)))
        else if \<not> (0 < amount_usdt_percent \<and> amount_usdt_percent \<le> 1) then
          Inr (False, print self (Err_amount_percent ts amount_usdt_percent))
        else
          (let usdt_to_short_equivalent = current_balance self * amount_usdt_percent in
           if usdt_to_short_equivalent < MIN_ORDER_USDT then
             Inr (False, print self
               (Err_short_too_small ts usdt_to_short_equivalent MIN_ORDER_USDT))
           else if price = 0 then Inl ZeroDivisionError
           else
             (let amount_coins_short = (usdt_to_short_equivalent / price) * (1 - fee self);
                  received = usdt_to_short_equivalent * (1 - fee self);
                  self1 = self\<lparr>current_balance := current_balance self + received,
                               position := - amount_coins_short, entry_price := price\<rparr>;
                  info = \<lparr>t_timestamp = ts, t_type = ''SELL_SHORT'', t_price = price,
                          amount_coins = - amount_coins_short, cost_usdt = None,
                          revenue_usdt = Some received,
                          balance_after_trade = current_balance self1,
                          current_position = position self1, pnl_usdt = 0\<rparr>;
                  self2 = print self1
                    (Short_opened ts amount_coins_short price received
                       (amount_usdt_percent * 100) (current_balance self1) (position self1))
              in Inr (True, self2\<lparr>trade_log := trade_log self2 @ [info]\<rparr>))))
     else if order_type = ''CLOSE_SHORT'' then
       (if position self \<ge> 0 then Inr (False, print self (Err_no_short_to_close ts))
        else
          (let amount_coins_to_buy_back = \<bar>position self\<bar>;
               cost_to_buy_back = (amount_coins_to_buy_back * price) * (1 + fee self)
           in
           if current_balance self < cost_to_buy_back then
             Inr (False, print self
               (Critical_insufficient_balance_simulation_aborted ts
                  (current_balance self) cost_to_buy_back))
           else
             (let revenue_from_short_open =
                    \<bar>position self\<bar> * entry_price self * (1 - fee self);
                  cost_for_short_close = \<bar>position self\<bar> * price * (1 + fee self);
                  profit_loss = revenue_from_short_open - cost_for_short_close;
                  self1 = self\<lparr>current_balance := current_balance self - cost_to_buy_back,
                               position := 0, entry_price := 0\<rparr>;
                  info = \<lparr>t_timestamp = ts, t_type = ''CLOSE_SHORT'', t_price = price,
                          amount_coins = 0, cost_usdt = Some cost_to_buy_back,
                          revenue_usdt = None,
                          balance_after_trade = current_balance self1,
                          current_position = position self1, pnl_usdt = profit_loss\<rparr>;
                  self2 = print self1
                    (Short_closed ts amount_coins_to_buy_back price cost_to_buy_back
                       profit_loss (current_balance self1))
              in Inr (True, self2\<lparr>trade_log := trade_log self2 @ [info]\<rparr>))))
     else Inr (False, print self (Unknown_order_type order_type)))"

text \<open>
  The public methods. \<^verbatim>\<open>amount_usdt_percent\<close> defaults to 1.0 in the source; the closing
  methods do not pass it, so \<^verbatim>\<open>_execute_order\<close> receives that default.
\<close>

definition open_long :: "backtester \<Rightarrow> timestamp \<Rightarrow> real \<Rightarrow> real \<Rightarrow> exn + (bool \<times> backtester)" where
  "open_long self ts price amount_usdt_percent =
     execute_order self ''BUY_LONG'' price ts amount_usdt_percent"

definition close_long :: "backtester \<Rightarrow> timestamp \<Rightarrow> real \<Rightarrow> exn + (bool \<times> backtester)" where
  "close_long self ts price = execute_order self ''CLOSE_LONG'' price ts 1"

definition open_short :: "backtester \<Rightarrow> timestamp \<Rightarrow> real \<Rightarrow> real \<Rightarrow> exn + (bool \<times> backtester)" where
  "open_short self ts price amount_usdt_percent =
     execute_order self ''SELL_SHORT'' price ts amount_usdt_percent"

definition close_short :: "backtester \<Rightarrow> timestamp \<Rightarrow> real \<Rightarrow> exn + (bool \<times> backtester)" where
  "close_short self ts price = execute_order self ''CLOSE_SHORT'' price ts 1"

definition get_current_position :: "backtester \<Rightarrow> real" where
  "get_current_position self = position self"

definition get_current_balance :: "backtester \<Rightarrow> real" where
  "get_current_balance self = current_balance self"

definition get_entry_price :: "backtester \<Rightarrow> real" where
  "get_entry_price self = entry_price self"

definition get_position_type :: "backtester \<Rightarrow> string" where
  "get_position_type self =
     (if position self > 0 then ''LONG''
      else if position self < 0 then ''SHORT''
      else ''NONE'')"

section \<open>Order requests and sequences of them\<close>

text \<open>
  A call of one of the four public order methods, with its arguments
  (timestamp, price and, for an open, the sizing fraction).
\<close>

datatype request =
    Open_long timestamp real real
  | Close_long timestamp real
  | Open_short timestamp real real
  | Close_short timestamp real

fun perform :: "backtester \<Rightarrow> request \<Rightarrow> exn + (bool \<times> backtester)" where
  "perform self (Open_long ts price pct) = open_long self ts price pct"
| "perform self (Close_long ts price) = close_long self ts price"
| "perform self (Open_short ts price pct) = open_short self ts price pct"
| "perform self (Close_short ts price) = close_short self ts price"

fun request_price :: "request \<Rightarrow> real" where
  "request_price (Open_long ts price pct) = price"
| "request_price (Close_long ts price) = price"
| "request_price (Open_short ts price pct) = price"
| "request_price (Close_short ts price) = price"

text \<open>
  A caller issuing the requests one after the other, whatever each returns; an
  exception ends the sequence.
\<close>

fun run_requests :: "backtester \<Rightarrow> request list \<Rightarrow> exn + backtester" where
  "run_requests self [] = Inr self"
| "run_requests self (rq # rqs) =
     (case perform self rq of
        Inl x \<Rightarrow> Inl x
      | Inr (ok, self') \<Rightarrow> run_requests self' rqs)"

text \<open>
  The failure conditions as the specification lists them: wrong-direction or duplicate
  open, no position to close, sizing fraction outside (0,1], notional below the minimum,
  non-positive balance for an open, insufficient balance to close a short.
\<close>

fun spec_rejected :: "backtester \<Rightarrow> request \<Rightarrow> bool" where
  "spec_rejected self (Open_long ts price pct) =
     (position self \<noteq> 0 \<or> current_balance self \<le> 0 \<or> \<not> (0 < pct \<and> pct \<le> 1)
      \<or> current_balance self * pct < MIN_ORDER_USDT)"
| "spec_rejected self (Close_long ts price) = (\<not> position self > 0)"
| "spec_rejected self (Open_short ts price pct) =
     (position self \<noteq> 0 \<or> current_balance self \<le> 0 \<or> \<not> (0 < pct \<and> pct \<le> 1)
      \<or> current_balance self * pct < MIN_ORDER_USDT)"
| "spec_rejected self (Close_short ts price) =
     (\<not> position self < 0
      \<or> current_balance self < \<bar>position self\<bar> * price * (1 + fee self))"

section \<open>Strategies and the simulation loop\<close>

text \<open>
  What a strategy reads through the accessor methods of the engine.
\<close>

record accessors =
  acc_position :: real
  acc_balance :: real
  acc_entry_price :: real
  acc_position_type :: string

definition view :: "backtester \<Rightarrow> accessors" where
  "view self =
     \<lparr>acc_position = get_current_position self,
      acc_balance = get_current_balance self,
      acc_entry_price = get_entry_price self,
      acc_position_type = get_position_type self\<rparr>"

text \<open>
  The body of an \<^verbatim>\<open>on_candle\<close> callback, as far as the engine sees it: it returns (with
  the strategy's own state \<open>'st\<close>), or it calls an order method and goes on from the
  boolean returned and the accessors read after the call. The strategy holds the engine
  handle from \<^verbatim>\<open>set_backtester\<close> on; the model passes it the accessors instead.
\<close>

datatype 'st callback =
    Return 'st
  | Call request "bool \<Rightarrow> accessors \<Rightarrow> 'st callback"

type_synonym 'st strategy = "'st \<Rightarrow> candle \<Rightarrow> accessors \<Rightarrow> 'st callback"

primrec run_callback ::
  "'st callback \<Rightarrow> backtester \<Rightarrow> (exn \<times> backtester) + ('st \<times> backtester)" where
  "run_callback (Return st) self = Inr (st, self)"
| "run_callback (Call rq k) self =
     (case perform self rq of
        Inl x \<Rightarrow> Inl (x, self)
      | Inr (ok, self') \<Rightarrow> run_callback (k ok (view self')) self')"

text \<open>The \<^verbatim>\<open>for\<close> loop of \<^verbatim>\<open>run_backtest\<close> over the rows of \<^verbatim>\<open>self.data\<close>.\<close>

fun run_candles ::
  "'st strategy \<Rightarrow> candle list \<Rightarrow> 'st \<Rightarrow> backtester \<Rightarrow> (exn \<times> backtester) + ('st \<times> backtester)" where
  "run_candles on_candle [] st self = Inr (st, self)"
| "run_candles on_candle (row # rows) st self =
     (case run_callback (on_candle st row (view self)) self of
        Inl x \<Rightarrow> Inl x
      | Inr (st', self1) \<Rightarrow>
          (let current_equity =
                 (if position self1 \<noteq> 0
                  then current_balance self1 + position self1 * close_price row
                  else current_balance self1);
               self2 = self1\<lparr>equity_log := equity_log self1 @
                          [\<lparr>e_timestamp = c_timestamp row, equity = current_equity\<rparr>]\<rparr>
           in run_candles on_candle rows st' self2))"

text \<open>
  \<^verbatim>\<open>display_results\<close>: \<^verbatim>\<open>self.data['close'].iloc[-1]\<close> raises IndexError when there is no
  candle, after the header is printed.
\<close>

definition display_results :: "backtester \<Rightarrow> (exn \<times> backtester) + backtester" where
  "display_results self =
     (let self1 = print self Results_header in
      if data self1 = [] then Inl (IndexError, self1)
      else
        (let last_price = close_price (last (data self1));
             final_equity =
               (if position self1 \<noteq> 0
                then current_balance self1 + position self1 * last_price
                else current_balance self1);
             self2 =
               (if position self1 \<noteq> 0
                then print self1 (Final_equity_with_open_position last_price final_equity)
                else print self1 (Final_equity final_equity));
             total_pnl = final_equity - initial_balance self2;
             self3 = print self2 (Total_profit_loss total_pnl);
             self4 =
               (if initial_balance self3 > 0
                then print self3 (Percentage_profit_loss ((total_pnl / initial_balance self3) * 100))
                else self3);
             self5 = print self4
               (Trade_counts (length (trade_log self4))
                  (length (filter (\<lambda>t. t_type t = ''BUY_LONG'') (trade_log self4)))
                  (length (filter (\<lambda>t. t_type t = ''SELL_SHORT'') (trade_log self4))));
             closed_pnl =
               sum_list (map pnl_usdt
                 (filter (\<lambda>t. t_type t \<in> set [''CLOSE_LONG'', ''CLOSE_SHORT'']) (trade_log self5)))
         in Inr (print self5 (Closed_pnl closed_pnl))))"

definition run_backtest ::
  "'st strategy \<Rightarrow> 'st \<Rightarrow> backtester \<Rightarrow> (exn \<times> backtester) + ('st \<times> backtester)" where
  "run_backtest on_candle st self =
     (let self0 = print self Starting_backtest in
      case run_candles on_candle (data self0) st self0 of
        Inl x \<Rightarrow> Inl x
      | Inr (st', self1) \<Rightarrow>
          (case display_results (print self1 Backtest_completed) of
             Inl x \<Rightarrow> Inl x
           | Inr self2 \<Rightarrow> Inr (st', self2)))"

text \<open>
  \<^verbatim>\<open>Strategy.on_candle\<close> of \<^verbatim>\<open>strategy.py\<close>; its state is the field
  \<^verbatim>\<open>trade_entry_percent\<close>. The value an order method returns is not looked at.
\<close>

definition Strategy_on_candle :: "real strategy" where
  "Strategy_on_candle trade_entry_percent row acc =
     (let position_type = acc_position_type acc in
      if position_type = ''NONE'' then
        (if close_price row > open_price row then
           Call (Open_long (c_timestamp row) (close_price row) trade_entry_percent)
             (\<lambda>ok acc'. Return trade_entry_percent)
         else if close_price row < open_price row then
           Call (Open_short (c_timestamp row) (close_price row) trade_entry_percent)
             (\<lambda>ok acc'. Return trade_entry_percent)
         else Return trade_entry_percent)
      else if position_type = ''LONG'' then
        (if close_price row < open_price row then
           Call (Close_long (c_timestamp row) (close_price row))
             (\<lambda>ok acc'. Return trade_entry_percent)
         else Return trade_entry_percent)
      else if position_type = ''SHORT'' then
        (if close_price row > open_price row then
           Call (Close_short (c_timestamp row) (close_price row))
             (\<lambda>ok acc'. Return trade_entry_percent)
         else Return trade_entry_percent)
      else Return trade_entry_percent)"

section \<open>Predicates used to state the properties\<close>

text \<open>
  The flat invariant: size and entry price are both zero, or the size is non-zero and
  the entry price strictly positive.
\<close>

definition flat_invariant :: "backtester \<Rightarrow> bool" where
  "flat_invariant self \<longleftrightarrow>
     (position self = 0 \<and> entry_price self = 0) \<or> (position self \<noteq> 0 \<and> 0 < entry_price self)"

text \<open>
  "Approximately \<open>- 2 f \<times> notional\<close>": equal to it up to a term of second order in the
  fee, at most \<open>2 f\<^sup>2 \<times> notional\<close>.
\<close>

definition approx_round_trip_cost :: "real \<Rightarrow> real \<Rightarrow> real \<Rightarrow> bool" where
  "approx_round_trip_cost f notional pnl \<longleftrightarrow>
     \<bar>pnl - (- 2 * f * notional)\<bar> \<le> 2 * f\<^sup>2 * notional"

text \<open>The realized pnl of the Trade Records, in the order of the trade log.\<close>

definition recorded_pnl :: "exn + backtester \<Rightarrow> real list" where
  "recorded_pnl r = (case r of Inl x \<Rightarrow> [] | Inr self \<Rightarrow> map pnl_usdt (trade_log self))"

text \<open>
  What a run returned or raised, and the engine object it leaves behind (the object
  outlives an exception).
\<close>

definition outcome :: "(exn \<times> backtester) + ('st \<times> backtester) \<Rightarrow> exn + 'st" where
  "outcome r = (case r of Inl (x, self) \<Rightarrow> Inl x | Inr (st, self) \<Rightarrow> Inr st)"

definition final_state :: "(exn \<times> backtester) + ('st \<times> backtester) \<Rightarrow> backtester" where
  "final_state r = (case r of Inl (x, self) \<Rightarrow> self | Inr (st, self) \<Rightarrow> self)"

section \<open>The four order methods, branch by branch\<close>

text \<open>
  Each public method unfolded through \<^verbatim>\<open>_execute_order\<close>: the checks in the order of the
  source, then the updated object.
\<close>

lemma open_long_eq:
  "open_long self ts price pct =
     (if position self > 0 then Inr (False, self)
      else if position self < 0 then Inr (False, print self (Err_buy_in_short ts (position self)))
      else if current_balance self \<le> 0 then
        Inr (False, print self (Err_insufficient_balance_to_buy ts (current_balance self)))
      else if \<not> (0 < pct \<and> pct \<le> 1) then Inr (False, print self (Err_amount_percent ts pct))
      else if current_balance self * pct < 5 then Inr (False, self)
      else if price = 0 then Inl ZeroDivisionError
      else Inr (True,
        self\<lparr>current_balance := current_balance self - current_balance self * pct,
             position := (current_balance self * pct / price) * (1 - fee self),
             entry_price := price,
             stdout := stdout self @
               [Long_opened ts ((current_balance self * pct / price) * (1 - fee self)) price
                  (current_balance self * pct) (pct * 100)
                  (current_balance self - current_balance self * pct)
                  ((current_balance self * pct / price) * (1 - fee self))],
             trade_log := trade_log self @
               [\<lparr>t_timestamp = ts, t_type = ''BUY_LONG'', t_price = price,
                 amount_coins = (current_balance self * pct / price) * (1 - fee self),
                 cost_usdt = Some (current_balance self * pct), revenue_usdt = None,
                 balance_after_trade = current_balance self - current_balance self * pct,
                 current_position = (current_balance self * pct / price) * (1 - fee self),
                 pnl_usdt = 0\<rparr>]\<rparr>))"
  by (simp add: open_long_def execute_order_def Let_def print_def MIN_ORDER_USDT_def)

lemma close_long_eq:
  "close_long self ts price =
     (if position self \<le> 0 then Inr (False, print self (Err_no_long_to_close ts))
      else Inr (True,
        self\<lparr>current_balance := current_balance self + position self * price * (1 - fee self),
             position := 0, entry_price := 0,
             stdout := stdout self @
               [Long_closed ts (position self * price * (1 - fee self))
                  (position self * price * (1 - fee self) - position self * entry_price self)
                  (current_balance self + position self * price * (1 - fee self))],
             trade_log := trade_log self @
               [\<lparr>t_timestamp = ts, t_type = ''CLOSE_LONG'', t_price = price,
                 amount_coins = 0, cost_usdt = None,
                 revenue_usdt = Some (position self * price * (1 - fee self)),
                 balance_after_trade =
                   current_balance self + position self * price * (1 - fee self),
                 current_position = 0,
                 pnl_usdt =
                   position self * price * (1 - fee self) - position self * entry_price self\<rparr>]\<rparr>))"
  by (simp add: close_long_def execute_order_def Let_def print_def)

lemma open_short_eq:
  "open_short self ts price pct =
     (if position self < 0 then Inr (False, print self (Err_already_short ts (position self)))
      else if position self > 0 then Inr (False, print self (Err_sell_in_long ts (position self)))
      else if \<not> (0 < pct \<and> pct \<le> 1) then Inr (False, print self (Err_amount_percent ts pct))
      else if current_balance self * pct < 5 then
        Inr (False, print self (Err_short_too_small ts (current_balance self * pct) 5))
      else if price = 0 then Inl ZeroDivisionError
      else Inr (True,
        self\<lparr>current_balance := current_balance self + current_balance self * pct * (1 - fee self),
             position := - ((current_balance self * pct / price) * (1 - fee self)),
             entry_price := price,
             stdout := stdout self @
               [Short_opened ts ((current_balance self * pct / price) * (1 - fee self)) price
                  (current_balance self * pct * (1 - fee self)) (pct * 100)
                  (current_balance self + current_balance self * pct * (1 - fee self))
                  (- ((current_balance self * pct / price) * (1 - fee self)))],
             trade_log := trade_log self @
               [\<lparr>t_timestamp = ts, t_type = ''SELL_SHORT'', t_price = price,
                 amount_coins = - ((current_balance self * pct / price) * (1 - fee self)),
                 cost_usdt = None,
                 revenue_usdt = Some (current_balance self * pct * (1 - fee self)),
                 balance_after_trade =
                   current_balance self + current_balance self * pct * (1 - fee self),
                 current_position = - ((current_balance self * pct / price) * (1 - fee self)),
                 pnl_usdt = 0\<rparr>]\<rparr>))"
  by (simp add: open_short_def execute_order_def Let_def print_def MIN_ORDER_USDT_def)

lemma close_short_eq:
  "close_short self ts price =
     (if position self \<ge> 0 then Inr (False, print self (Err_no_short_to_close ts))
      else if current_balance self < \<bar>position self\<bar> * price * (1 + fee self) then
        Inr (False, print self
          (Critical_insufficient_balance_simulation_aborted ts (current_balance self)
             (\<bar>position self\<bar> * price * (1 + fee self))))
      else Inr (True,
        self\<lparr>current_balance := current_balance self - \<bar>position self\<bar> * price * (1 + fee self),
             position := 0, entry_price := 0,
             stdout := stdout self @
               [Short_closed ts \<bar>position self\<bar> price (\<bar>position self\<bar> * price * (1 + fee self))
                  (\<bar>position self\<bar> * entry_price self * (1 - fee self)
                     - \<bar>position self\<bar> * price * (1 + fee self))
                  (current_balance self - \<bar>position self\<bar> * price * (1 + fee self))],
             trade_log := trade_log self @
               [\<lparr>t_timestamp = ts, t_type = ''CLOSE_SHORT'', t_price = price,
                 amount_coins = 0,
                 cost_usdt = Some (\<bar>position self\<bar> * price * (1 + fee self)),
                 revenue_usdt = None,
                 balance_after_trade =
                   current_balance self - \<bar>position self\<bar> * price * (1 + fee self),
                 current_position = 0,
                 pnl_usdt =
                   \<bar>position self\<bar> * entry_price self * (1 - fee self)
                     - \<bar>position self\<bar> * price * (1 + fee self)\<rparr>]\<rparr>))"
  by (simp add: close_short_def execute_order_def Let_def print_def)


lemma notional_nonpos: "b \<le> 0 \<Longrightarrow> 0 < p \<Longrightarrow> b * p \<le> (0::real)"
  by (simp add: mult_le_0_iff)

lemma spend_le_balance: "0 \<le> b \<Longrightarrow> p \<le> 1 \<Longrightarrow> b * p \<le> (b::real)"
  by (simp add: mult_left_le)

section \<open>Rejected orders\<close>

text \<open>
  Claim C1. An order method returns False exactly under the failure conditions the
  specification lists; it then raises no exception and leaves balance, position size,
  entry price, trade log and equity log as they were (so no Trade Record is appended).
\<close>

theorem rejected_order_is_noop:
  "(spec_rejected self rq \<longrightarrow> (\<exists>self'. perform self rq = Inr (False, self'))) \<and>
   (\<forall>self'. perform self rq = Inr (False, self') \<longrightarrow>
      spec_rejected self rq \<and>
      current_balance self' = current_balance self \<and> position self' = position self \<and>
      entry_price self' = entry_price self \<and> trade_log self' = trade_log self \<and>
      equity_log self' = equity_log self)"
proof (cases rq)
  case (Open_long ts price pct)
  then show ?thesis
    by (auto simp: open_long_eq print_def MIN_ORDER_USDT_def split: if_splits)
next
  case (Close_long ts price)
  then show ?thesis
    by (auto simp: close_long_eq print_def split: if_splits)
next
  case (Open_short ts price pct)
  then show ?thesis
    using notional_nonpos [of "current_balance self" pct]
    by (auto simp: open_short_eq print_def MIN_ORDER_USDT_def split: if_splits)
next
  case (Close_short ts price)
  then show ?thesis
    by (auto simp: close_short_eq print_def split: if_splits)
qed

text \<open>
  A second open-long while already long (100 coins bought at 100, no cash left).
\<close>

theorem rejected_order_is_noop_witness:
  "spec_rejected
     ((init [] 10000 0)\<lparr>current_balance := 0, position := 100, entry_price := 100\<rparr>)
     (Open_long 2 100 1) \<and>
   perform
     ((init [] 10000 0)\<lparr>current_balance := 0, position := 100, entry_price := 100\<rparr>)
     (Open_long 2 100 1) =
   Inr (False, (init [] 10000 0)\<lparr>current_balance := 0, position := 100, entry_price := 100\<rparr>) \<and>
   trade_log ((init [] 10000 0)\<lparr>current_balance := 0, position := 100, entry_price := 100\<rparr>) = []"
proof -
  let ?s = "(init [] 10000 0)\<lparr>current_balance := 0, position := 100, entry_price := 100\<rparr>"
  have rej: "spec_rejected ?s (Open_long 2 100 1)"
    by (simp add: init_def)
  with rejected_order_is_noop [of ?s "Open_long 2 100 1"]
  obtain self' where ret: "perform ?s (Open_long 2 100 1) = Inr (False, self')"
    by blast
  have "perform ?s (Open_long 2 100 1) = Inr (False, ?s)"
    by (simp add: open_long_eq init_def)
  with rej ret show ?thesis
    by (simp add: init_def)
qed

section \<open>Effects of the successful orders\<close>

text \<open>
  Claim C2. From a flat position, with a sizing fraction in (0,1], a notional
  \<open>balance \<times> fraction\<close> of at least 5, a positive balance and a positive price,
  \<^verbatim>\<open>open_long\<close> returns True; the position is \<open>(balance \<times> fraction / price) \<times> (1 - fee)\<close>,
  the balance is lowered by \<open>balance \<times> fraction\<close>, the entry price is the price, and one
  Trade Record with pnl 0 is appended.
\<close>

theorem open_long_effect:
  assumes "position self = 0" and "0 < pct" and "pct \<le> 1"
    and "5 \<le> current_balance self * pct" and "0 < current_balance self" and "0 < price"
  shows "\<exists>self' t. open_long self ts price pct = Inr (True, self') \<and>
           position self' = (current_balance self * pct / price) * (1 - fee self) \<and>
           current_balance self' = current_balance self - current_balance self * pct \<and>
           entry_price self' = price \<and>
           trade_log self' = trade_log self @ [t] \<and> pnl_usdt t = 0 \<and>
           equity_log self' = equity_log self"
  using assms by (simp add: open_long_eq)

theorem open_long_effect_witness:
  "position (init [] 10000 0) = 0 \<and> (0::real) < 1 \<and> (1::real) \<le> 1 \<and>
   5 \<le> current_balance (init [] 10000 0) * 1 \<and> 0 < current_balance (init [] 10000 0) \<and>
   (0::real) < 100 \<and>
   (\<exists>self' t. open_long (init [] 10000 0) 1 100 1 = Inr (True, self') \<and>
      position self' = 100 \<and> current_balance self' = 0 \<and> entry_price self' = 100 \<and>
      trade_log self' = [t] \<and> pnl_usdt t = 0)"
proof -
  have h: "position (init [] 10000 0) = 0" "(0::real) < 1" "(1::real) \<le> 1"
    "5 \<le> current_balance (init [] 10000 0) * 1" "0 < current_balance (init [] 10000 0)"
    "(0::real) < 100"
    by (simp_all add: init_def)
  from open_long_effect [OF h, of 1] show ?thesis
    by (auto simp: init_def)
qed

text \<open>
  Claim C3. With a short position and a balance of at least
  \<open>cost = |size| \<times> price \<times> (1 + fee)\<close>, \<^verbatim>\<open>close_short\<close> returns True; the balance is
  lowered by the cost, the recorded pnl is \<open>|size| \<times> entry_price \<times> (1 - fee) - cost\<close>,
  size and entry price are reset to 0, and one Trade Record is appended.
\<close>

theorem close_short_effect:
  assumes "position self < 0"
    and "\<bar>position self\<bar> * price * (1 + fee self) \<le> current_balance self"
  shows "\<exists>self' t. close_short self ts price = Inr (True, self') \<and>
           current_balance self' =
             current_balance self - \<bar>position self\<bar> * price * (1 + fee self) \<and>
           pnl_usdt t =
             \<bar>position self\<bar> * entry_price self * (1 - fee self)
               - \<bar>position self\<bar> * price * (1 + fee self) \<and>
           position self' = 0 \<and> entry_price self' = 0 \<and>
           trade_log self' = trade_log self @ [t]"
  using assms by (simp add: close_short_eq)

text \<open>A short of 100 coins opened at 50, bought back at 40 without fee.\<close>

theorem close_short_effect_witness:
  "position ((init [] 10000 0)\<lparr>current_balance := 15000, position := - 100,
      entry_price := 50\<rparr>) < 0 \<and>
   \<bar>position ((init [] 10000 0)\<lparr>current_balance := 15000, position := - 100,
      entry_price := 50\<rparr>)\<bar> * 40
     * (1 + fee ((init [] 10000 0)\<lparr>current_balance := 15000, position := - 100,
         entry_price := 50\<rparr>))
     \<le> current_balance ((init [] 10000 0)\<lparr>current_balance := 15000, position := - 100,
         entry_price := 50\<rparr>) \<and>
   (\<exists>self' t. close_short ((init [] 10000 0)\<lparr>current_balance := 15000, position := - 100,
        entry_price := 50\<rparr>) 2 40 = Inr (True, self') \<and>
      current_balance self' = 11000 \<and> pnl_usdt t = 1000 \<and> position self' = 0 \<and>
      entry_price self' = 0 \<and> trade_log self' = [t])"
proof -
  let ?s = "(init [] 10000 0)\<lparr>current_balance := 15000, position := - 100, entry_price := 50\<rparr>"
  have h: "position ?s < 0" "\<bar>position ?s\<bar> * 40 * (1 + fee ?s) \<le> current_balance ?s"
    by (simp_all add: init_def)
  from close_short_effect [OF h, of 2] show ?thesis
    by (simp add: init_def)
qed

text \<open>
  Claim C4. With a long position, \<^verbatim>\<open>close_long\<close> returns True; the balance grows by
  \<open>revenue = size \<times> price \<times> (1 - fee)\<close>, the recorded pnl is
  \<open>revenue - size \<times> entry_price\<close>, size and entry price are reset to 0, and one Trade
  Record is appended.
\<close>

theorem close_long_effect:
  assumes "0 < position self"
  shows "\<exists>self' t. close_long self ts price = Inr (True, self') \<and>
           current_balance self' =
             current_balance self + position self * price * (1 - fee self) \<and>
           pnl_usdt t =
             position self * price * (1 - fee self) - position self * entry_price self \<and>
           position self' = 0 \<and> entry_price self' = 0 \<and>
           trade_log self' = trade_log self @ [t]"
  using assms by (simp add: close_long_eq)

text \<open>The scenario of the specification: 100 coins bought at 100, sold at 110, no fee.\<close>

theorem close_long_effect_witness:
  "0 < position ((init [] 10000 0)\<lparr>current_balance := 0, position := 100,
      entry_price := 100\<rparr>) \<and>
   (\<exists>self' t. close_long ((init [] 10000 0)\<lparr>current_balance := 0, position := 100,
        entry_price := 100\<rparr>) 2 110 = Inr (True, self') \<and>
      current_balance self' = 11000 \<and> pnl_usdt t = 1000 \<and> position self' = 0 \<and>
      entry_price self' = 0 \<and> trade_log self' = [t])"
proof -
  let ?s = "(init [] 10000 0)\<lparr>current_balance := 0, position := 100, entry_price := 100\<rparr>"
  have h: "0 < position ?s"
    by (simp add: init_def)
  from close_long_effect [OF h, of 2 110] show ?thesis
    by (simp add: init_def)
qed

section \<open>Invariants over sequences of orders\<close>

lemma perform_balance_nonneg:
  assumes "0 \<le> fee self" and "fee self < 1" and "0 < request_price rq"
    and "0 \<le> current_balance self"
  shows "\<exists>ok self'. perform self rq = Inr (ok, self') \<and> 0 \<le> current_balance self' \<and>
           fee self' = fee self"
proof (cases rq)
  case (Open_long ts price pct)
  then show ?thesis
    using assms spend_le_balance [of "current_balance self" pct]
    by (auto simp: open_long_eq print_def)
next
  case (Close_long ts price)
  then show ?thesis
    using assms by (auto simp: close_long_eq print_def)
next
  case (Open_short ts price pct)
  then show ?thesis
    using assms by (auto simp: open_short_eq print_def)
next
  case (Close_short ts price)
  then show ?thesis
    using assms by (auto simp: close_short_eq print_def)
qed

lemma run_requests_balance_nonneg:
  assumes "\<forall>rq\<in>set rqs. 0 < request_price rq"
    and "0 \<le> fee self" and "fee self < 1" and "0 \<le> current_balance self"
  shows "\<exists>self'. run_requests self rqs = Inr self' \<and> 0 \<le> current_balance self'"
  using assms
proof (induction rqs arbitrary: self)
  case Nil
  then show ?case by simp
next
  case (Cons rq rqs)
  from Cons.prems obtain ok s1 where
    step: "perform self rq = Inr (ok, s1)" "0 \<le> current_balance s1" "fee s1 = fee self"
    using perform_balance_nonneg [of self rq] by auto
  with Cons.prems Cons.IH [of s1] show ?case
    by simp
qed

text \<open>
  Claim C5. From a state with a non-negative balance and a fee in [0,1), after any
  number \<open>n\<close> of the requests of any sequence of the four order methods at positive
  prices, no exception was raised and the balance is non-negative.
\<close>

theorem balance_never_negative:
  assumes "0 \<le> current_balance self" and "0 \<le> fee self" and "fee self < 1"
    and "\<forall>rq\<in>set rqs. 0 < request_price rq"
  shows "\<exists>self'. run_requests self (take n rqs) = Inr self' \<and> 0 \<le> current_balance self'"
proof -
  from assms(4) have "\<forall>rq\<in>set (take n rqs). 0 < request_price rq"
    by (meson in_set_takeD)
  with assms(1-3) show ?thesis
    using run_requests_balance_nonneg [of "take n rqs" self] by blast
qed

text \<open>
  A short opened with half the balance and bought back, then a long with the whole
  balance, fee 0.1%.
\<close>

theorem balance_never_negative_witness:
  "0 \<le> current_balance (init [] 10000 (1/1000)) \<and> 0 \<le> fee (init [] 10000 (1/1000)) \<and>
   fee (init [] 10000 (1/1000)) < 1 \<and>
   0 < request_price (Open_short 1 50 (1/2)) \<and> 0 < request_price (Close_short 2 40) \<and>
   0 < request_price (Open_long 3 100 1) \<and> 0 < request_price (Close_long 4 90) \<and>
   (\<exists>self'. run_requests (init [] 10000 (1/1000))
        (take 3 [Open_short 1 50 (1/2), Close_short 2 40, Open_long 3 100 1, Close_long 4 90])
        = Inr self' \<and> 0 \<le> current_balance self')"
proof -
  have h: "0 \<le> current_balance (init [] 10000 (1/1000))" "0 \<le> fee (init [] 10000 (1/1000))"
    "fee (init [] 10000 (1/1000)) < 1"
    "\<forall>rq\<in>set [Open_short 1 50 (1/2), Close_short 2 40, Open_long 3 100 1, Close_long 4 90].
      0 < request_price rq"
    by (simp_all add: init_def)
  from balance_never_negative [OF h, of 3] h(1-3) show ?thesis
    by simp
qed

lemma perform_flat_invariant:
  assumes "0 \<le> fee self" and "fee self < 1" and "0 < request_price rq"
    and "flat_invariant self"
  shows "\<exists>ok self'. perform self rq = Inr (ok, self') \<and> flat_invariant self' \<and>
           fee self' = fee self"
proof (cases rq)
  case (Open_long ts price pct)
  then show ?thesis
    using assms 
    by (auto simp: open_long_eq print_def flat_invariant_def)
next
  case (Close_long ts price)
  then show ?thesis
    using assms by (auto simp: close_long_eq print_def flat_invariant_def)
next
  case (Open_short ts price pct)
  then show ?thesis
    using assms notional_nonpos [of "current_balance self" pct] by (auto simp: open_short_eq print_def flat_invariant_def)
next
  case (Close_short ts price)
  then show ?thesis
    using assms by (auto simp: close_short_eq print_def flat_invariant_def)
qed

lemma run_requests_flat_invariant:
  assumes "\<forall>rq\<in>set rqs. 0 < request_price rq"
    and "0 \<le> fee self" and "fee self < 1" and "flat_invariant self"
  shows "\<exists>self'. run_requests self rqs = Inr self' \<and> flat_invariant self'"
  using assms
proof (induction rqs arbitrary: self)
  case Nil
  then show ?case by simp
next
  case (Cons rq rqs)
  from Cons.prems obtain ok s1 where
    step: "perform self rq = Inr (ok, s1)" "flat_invariant s1" "fee s1 = fee self"
    using perform_flat_invariant [of self rq] by auto
  with Cons.prems Cons.IH [of s1] show ?case
    by simp
qed

text \<open>
  Claim C6. From the constructed state, with a fee in [0,1), after any number \<open>n\<close> of
  the requests of any sequence of the four order methods at positive prices, size and
  entry price are both zero, or the size is non-zero and the entry price strictly
  positive.
\<close>

theorem size_and_entry_price_zero_together:
  assumes "0 \<le> f" and "f < 1" and "\<forall>rq\<in>set rqs. 0 < request_price rq"
  shows "\<exists>self'. run_requests (init df b f) (take n rqs) = Inr self' \<and>
           ((position self' = 0 \<and> entry_price self' = 0) \<or>
            (position self' \<noteq> 0 \<and> 0 < entry_price self'))"
proof -
  from assms(3) have "\<forall>rq\<in>set (take n rqs). 0 < request_price rq"
    by (meson in_set_takeD)
  moreover have "flat_invariant (init df b f)" "fee (init df b f) = f"
    by (simp_all add: flat_invariant_def init_def)
  ultimately show ?thesis
    using assms(1,2) run_requests_flat_invariant [of "take n rqs" "init df b f"]
    by (simp add: flat_invariant_def)
qed

text \<open>The same sequence of orders, from the constructed state.\<close>

theorem size_and_entry_price_zero_together_witness:
  "(0::real) \<le> 1/1000 \<and> (1/1000::real) < 1 \<and>
   0 < request_price (Open_short 1 50 (1/2)) \<and> 0 < request_price (Close_short 2 40) \<and>
   0 < request_price (Open_long 3 100 1) \<and> 0 < request_price (Close_long 4 90) \<and>
   (\<exists>self'. run_requests (init [] 10000 (1/1000))
        (take 3 [Open_short 1 50 (1/2), Close_short 2 40, Open_long 3 100 1, Close_long 4 90])
        = Inr self' \<and>
        ((position self' = 0 \<and> entry_price self' = 0) \<or>
         (position self' \<noteq> 0 \<and> 0 < entry_price self')))"
proof -
  have h: "(0::real) \<le> 1/1000" "(1/1000::real) < 1"
    "\<forall>rq\<in>set [Open_short 1 50 (1/2), Close_short 2 40, Open_long 3 100 1, Close_long 4 90].
      0 < request_price rq"
    by simp_all
  from size_and_entry_price_zero_together [OF h, of "[]" 10000 3] show ?thesis
    by simp
qed


section \<open>Round trips at one price\<close>

lemma open_long_ok:
  assumes "position self = 0" and "0 < pct" and "pct \<le> 1"
    and "5 \<le> current_balance self * pct" and "0 < current_balance self" and "price \<noteq> 0"
  shows "\<exists>self' t. open_long self ts price pct = Inr (True, self') \<and>
           position self' = (current_balance self * pct / price) * (1 - fee self) \<and>
           current_balance self' = current_balance self - current_balance self * pct \<and>
           entry_price self' = price \<and> fee self' = fee self \<and>
           trade_log self' = trade_log self @ [t] \<and> pnl_usdt t = 0 \<and>
           equity_log self' = equity_log self"
  using assms by (simp add: open_long_eq)

lemma open_short_ok:
  assumes "position self = 0" and "0 < pct" and "pct \<le> 1"
    and "5 \<le> current_balance self * pct" and "price \<noteq> 0"
  shows "\<exists>self' t. open_short self ts price pct = Inr (True, self') \<and>
           position self' = - ((current_balance self * pct / price) * (1 - fee self)) \<and>
           current_balance self' =
             current_balance self + current_balance self * pct * (1 - fee self) \<and>
           entry_price self' = price \<and> fee self' = fee self \<and>
           trade_log self' = trade_log self @ [t] \<and> pnl_usdt t = 0 \<and>
           equity_log self' = equity_log self"
  using assms by (simp add: open_short_eq)

lemma close_long_ok:
  assumes "0 < position self"
  shows "\<exists>self' t. close_long self ts price = Inr (True, self') \<and>
           current_balance self' =
             current_balance self + position self * price * (1 - fee self) \<and>
           pnl_usdt t =
             position self * price * (1 - fee self) - position self * entry_price self \<and>
           position self' = 0 \<and> entry_price self' = 0 \<and> fee self' = fee self \<and>
           trade_log self' = trade_log self @ [t] \<and> equity_log self' = equity_log self"
  using assms by (simp add: close_long_eq)

lemma close_short_ok:
  assumes "position self < 0"
    and "\<bar>position self\<bar> * price * (1 + fee self) \<le> current_balance self"
  shows "\<exists>self' t. close_short self ts price = Inr (True, self') \<and>
           current_balance self' =
             current_balance self - \<bar>position self\<bar> * price * (1 + fee self) \<and>
           pnl_usdt t =
             \<bar>position self\<bar> * entry_price self * (1 - fee self)
               - \<bar>position self\<bar> * price * (1 + fee self) \<and>
           position self' = 0 \<and> entry_price self' = 0 \<and> fee self' = fee self \<and>
           trade_log self' = trade_log self @ [t] \<and> equity_log self' = equity_log self"
  using assms by (simp add: close_short_eq)

text \<open>
  Claim C8, as it is stated, fails for a long. With a fee of 0.1%, the whole balance of
  10000 spent at 100 and the position sold at once at 100, the recorded pnl is -9.99,
  about \<open>- f \<times> notional\<close> and half of \<open>- 2 f \<times> notional = - 20\<close>, whether the notional is
  the 10000 spent or the 9990 the coins are worth: \<^verbatim>\<open>CLOSE_LONG\<close> takes
  \<open>size \<times> entry_price\<close> as the cost of the position, which leaves the opening fee out.
\<close>

theorem long_round_trip_counterexample:
  "recorded_pnl (run_requests (init [] 10000 (1/1000)) [Open_long 1 100 1, Close_long 1 100])
     = [0, - (999/100)] \<and>
   \<not> approx_round_trip_cost (1/1000) 10000 (- (999/100)) \<and>
   \<not> approx_round_trip_cost (1/1000) 9990 (- (999/100))"
  by (simp add: recorded_pnl_def open_long_eq close_long_eq init_def
      approx_round_trip_cost_def power2_eq_square)

text \<open>
  Claim C8, amended. From a flat state, with a sizing fraction in (0,1], a notional
  \<open>n = balance \<times> fraction\<close> of at least 5, a positive price and a fee \<open>f\<close> in [0,1): opening
  and then closing at the same price succeeds for a long and for a short; the recorded
  pnl is \<open>- f (1 - f) n\<close> for the long and \<open>- 2 f (1 - f) n\<close> for the short, which is
  \<open>- 2 f n\<close> up to \<open>2 f\<^sup>2 n\<close>; both are strictly negative when \<open>f > 0\<close>.
\<close>

theorem round_trip_pnl:
  assumes flat: "position self = 0" and pct: "0 < pct" "pct \<le> 1"
    and min: "5 \<le> current_balance self * pct" and price: "0 < price"
    and fee: "0 \<le> fee self" "fee self < 1"
  shows "(\<exists>s1 s2 pnl. open_long self ts price pct = Inr (True, s1) \<and>
            close_long s1 ts' price = Inr (True, s2) \<and>
            map pnl_usdt (trade_log s2) = map pnl_usdt (trade_log self) @ [0, pnl] \<and>
            pnl = - (fee self * (1 - fee self) * (current_balance self * pct)) \<and>
            (0 < fee self \<longrightarrow> pnl < 0)) \<and>
         (\<exists>s1 s2 pnl. open_short self ts price pct = Inr (True, s1) \<and>
            close_short s1 ts' price = Inr (True, s2) \<and>
            map pnl_usdt (trade_log s2) = map pnl_usdt (trade_log self) @ [0, pnl] \<and>
            pnl = - (2 * fee self * (1 - fee self) * (current_balance self * pct)) \<and>
            approx_round_trip_cost (fee self) (current_balance self * pct) pnl \<and>
            (0 < fee self \<longrightarrow> pnl < 0))"
proof -
  define b where "b = current_balance self"
  define f where "f = fee self"
  define n where "n = b * pct"
  define c where "c = n / price * (1 - f)"
  have npos: "0 < n"
    using min by (simp add: n_def b_def)
  have bpos: "0 < b"
    using npos pct by (simp add: n_def zero_less_mult_iff)
  have cpos: "0 < c"
    using npos price fee by (simp add: c_def f_def)
  have worth: "c * price = n * (1 - f)"
    using price by (simp add: c_def)
  have neg: "0 < f \<Longrightarrow> - (k * f * (1 - f) * n) < 0" if "0 < k" for k :: real
    using that npos fee by (simp add: f_def)
  have long_part: "\<exists>s1 s2 pnl. open_long self ts price pct = Inr (True, s1) \<and>
            close_long s1 ts' price = Inr (True, s2) \<and>
            map pnl_usdt (trade_log s2) = map pnl_usdt (trade_log self) @ [0, pnl] \<and>
            pnl = - (f * (1 - f) * n) \<and> (0 < f \<longrightarrow> pnl < 0)"
  proof -
    from open_long_ok [of self pct price ts] flat pct min price bpos
    obtain s1 t1 where s1: "open_long self ts price pct = Inr (True, s1)"
      "position s1 = c" "entry_price s1 = price" "fee s1 = f"
      "trade_log s1 = trade_log self @ [t1]" "pnl_usdt t1 = 0"
      by (auto simp: c_def n_def b_def f_def)
    from close_long_ok [of s1 ts' price] cpos s1
    obtain s2 t2 where s2: "close_long s1 ts' price = Inr (True, s2)"
      "pnl_usdt t2 = c * price * (1 - f) - c * price"
      "trade_log s2 = trade_log s1 @ [t2]"
      by auto
    have pnl: "pnl_usdt t2 = - (f * (1 - f) * n)"
      unfolding s2(2) worth by (simp add: algebra_simps)
    have "0 < f \<longrightarrow> - (f * (1 - f) * n) < 0"
      using neg [of 1] by simp
    with s1(1) s2(1) show ?thesis
      by (intro exI [of _ s1] exI [of _ s2] exI [of _ "- (f * (1 - f) * n)"])
        (simp add: s1(5,6) s2(3) pnl)
  qed
  have short_part: "\<exists>s1 s2 pnl. open_short self ts price pct = Inr (True, s1) \<and>
            close_short s1 ts' price = Inr (True, s2) \<and>
            map pnl_usdt (trade_log s2) = map pnl_usdt (trade_log self) @ [0, pnl] \<and>
            pnl = - (2 * f * (1 - f) * n) \<and>
            approx_round_trip_cost f n pnl \<and> (0 < f \<longrightarrow> pnl < 0)"
  proof -
    from open_short_ok [of self pct price ts] flat pct min price
    obtain s1 t1 where s1: "open_short self ts price pct = Inr (True, s1)"
      "position s1 = - c" "entry_price s1 = price" "fee s1 = f"
      "current_balance s1 = b + n * (1 - f)"
      "trade_log s1 = trade_log self @ [t1]" "pnl_usdt t1 = 0"
      by (auto simp: c_def n_def b_def f_def)
    have abs: "\<bar>position s1\<bar> = c"
      using cpos s1 by simp
    have "n \<le> b"
      using bpos pct by (simp add: n_def mult_left_le)
    moreover have "f * (1 - f) \<le> 1"
      using fee by (intro mult_le_one) (simp_all add: f_def)
    then have "n * (f * (1 - f)) \<le> n"
      using npos by (simp add: mult_left_le)
    ultimately have "n * (1 - f) * (1 + f) \<le> b + n * (1 - f)"
      by (simp add: algebra_simps)
    then have cover: "\<bar>position s1\<bar> * price * (1 + fee s1) \<le> current_balance s1"
      using cpos worth by (simp add: s1)
    from close_short_ok [OF _ cover, of ts'] cpos s1
    obtain s2 t2 where s2: "close_short s1 ts' price = Inr (True, s2)"
      "pnl_usdt t2 = c * price * (1 - f) - c * price * (1 + f)"
      "trade_log s2 = trade_log s1 @ [t2]"
      unfolding abs by auto
    have pnl: "pnl_usdt t2 = - (2 * f * (1 - f) * n)"
      unfolding s2(2) worth by (simp add: algebra_simps)
    have "- (2 * f * (1 - f) * n) - (- 2 * f * n) = 2 * f\<^sup>2 * n"
      by (simp add: algebra_simps power2_eq_square)
    moreover have "0 \<le> 2 * f\<^sup>2 * n"
      using npos by simp
    ultimately have "approx_round_trip_cost f n (- (2 * f * (1 - f) * n))"
      unfolding approx_round_trip_cost_def by simp
    moreover have "0 < f \<longrightarrow> - (2 * f * (1 - f) * n) < 0"
      using neg [of 2] by simp
    ultimately show ?thesis
      using s1(1) s2(1)
      by (intro exI [of _ s1] exI [of _ s2] exI [of _ "- (2 * f * (1 - f) * n)"])
        (simp add: s1(6,7) s2(3) pnl)
  qed
  from long_part short_part show ?thesis
    unfolding n_def b_def f_def by blast
qed

text \<open>Half of 10000 at price 50, fee 0.1%: the long books -4.995, the short -9.99.\<close>

theorem round_trip_pnl_witness:
  "position (init [] 10000 (1/1000)) = 0 \<and> (0::real) < 1/2 \<and> (1/2::real) \<le> 1 \<and>
   5 \<le> current_balance (init [] 10000 (1/1000)) * (1/2) \<and> (0::real) < 50 \<and>
   0 \<le> fee (init [] 10000 (1/1000)) \<and> fee (init [] 10000 (1/1000)) < 1 \<and>
   (\<exists>s1 s2. open_long (init [] 10000 (1/1000)) 1 50 (1/2) = Inr (True, s1) \<and>
      close_long s1 2 50 = Inr (True, s2) \<and>
      map pnl_usdt (trade_log s2) = [0, - (999/200)]) \<and>
   (\<exists>s1 s2. open_short (init [] 10000 (1/1000)) 1 50 (1/2) = Inr (True, s1) \<and>
      close_short s1 2 50 = Inr (True, s2) \<and>
      map pnl_usdt (trade_log s2) = [0, - (999/100)])"
proof -
  have h: "position (init [] 10000 (1/1000)) = 0" "(0::real) < 1/2" "(1/2::real) \<le> 1"
    "5 \<le> current_balance (init [] 10000 (1/1000)) * (1/2)" "(0::real) < 50"
    "0 \<le> fee (init [] 10000 (1/1000))" "fee (init [] 10000 (1/1000)) < 1"
    by (simp_all add: init_def)
  from round_trip_pnl [OF h, of 1 2] h show ?thesis
    by (auto simp: init_def)
qed


section \<open>What the callback and the loop leave untouched\<close>

lemmas accessor_defs = view_def get_current_position_def get_current_balance_def
  get_entry_price_def get_position_type_def

lemma print_fields [simp]:
  "data (print self m) = data self" "initial_balance (print self m) = initial_balance self"
  "current_balance (print self m) = current_balance self" "fee (print self m) = fee self"
  "position (print self m) = position self" "entry_price (print self m) = entry_price self"
  "trade_log (print self m) = trade_log self" "equity_log (print self m) = equity_log self"
  by (simp_all add: print_def)

lemma final_state_simps [simp]:
  "final_state (Inl (x, self)) = self" "final_state (Inr (st, self)) = self"
  by (simp_all add: final_state_def)

lemma outcome_simps [simp]:
  "outcome (Inl (x, self)) = Inl x" "outcome (Inr (st, self)) = Inr st"
  by (simp_all add: outcome_def)

lemma perform_frame:
  assumes "perform self rq = Inr (ok, self')"
  shows "equity_log self' = equity_log self \<and> data self' = data self \<and>
         fee self' = fee self \<and> initial_balance self' = initial_balance self"
proof (cases rq)
  case (Open_long ts price pct)
  with assms show ?thesis
    by (auto simp: open_long_eq print_def split: if_splits)
next
  case (Close_long ts price)
  with assms show ?thesis
    by (auto simp: close_long_eq print_def split: if_splits)
next
  case (Open_short ts price pct)
  with assms show ?thesis
    by (auto simp: open_short_eq print_def split: if_splits)
next
  case (Close_short ts price)
  with assms show ?thesis
    by (auto simp: close_short_eq print_def split: if_splits)
qed

lemma run_callback_frame:
  "equity_log (final_state (run_callback cb self)) = equity_log self \<and>
   data (final_state (run_callback cb self)) = data self"
proof (induction cb arbitrary: self)
  case (Return st)
  show ?case by simp
next
  case (Call rq k)
  show ?case
  proof (cases "perform self rq")
    case (Inl x)
    then show ?thesis by simp
  next
    case (Inr p)
    obtain ok s1 where p: "p = (ok, s1)" by (cases p)
    from Inr p perform_frame [of self rq ok s1]
    have "equity_log s1 = equity_log self" "data s1 = data self" by simp_all
    moreover have "equity_log (final_state (run_callback (k ok (view s1)) s1)) = equity_log s1 \<and>
        data (final_state (run_callback (k ok (view s1)) s1)) = data s1"
      by (rule Call.IH [OF rangeI rangeI])
    ultimately show ?thesis
      using Inr p by simp
  qed
qed

lemma run_candles_append:
  "run_candles on_candle (xs @ ys) st self =
     (case run_candles on_candle xs st self of
        Inl x \<Rightarrow> Inl x
      | Inr (st', self') \<Rightarrow> run_candles on_candle ys st' self')"
  by (induction xs arbitrary: st self) (auto simp: Let_def split: sum.splits)

lemma run_candles_equity_log:
  "\<exists>el. equity_log (final_state (run_candles on_candle cs st self)) = equity_log self @ el \<and>
        length el \<le> length cs \<and>
        (\<forall>st' self'. run_candles on_candle cs st self = Inr (st', self') \<longrightarrow>
           length el = length cs) \<and>
        data (final_state (run_candles on_candle cs st self)) = data self"
proof (induction cs arbitrary: st self)
  case Nil
  show ?case by simp
next
  case (Cons row rows)
  show ?case
  proof (cases "run_callback (on_candle st row (view self)) self")
    case (Inl e)
    obtain x s1 where e: "e = (x, s1)" by (cases e)
    from Inl e run_callback_frame [of "on_candle st row (view self)" self]
    show ?thesis by simp
  next
    case (Inr p)
    obtain st1 s1 where p: "p = (st1, s1)" by (cases p)
    from Inr p run_callback_frame [of "on_candle st row (view self)" self]
    have fr: "equity_log s1 = equity_log self" "data s1 = data self" by simp_all
    define s2 where "s2 = s1\<lparr>equity_log := equity_log s1 @
      [\<lparr>e_timestamp = c_timestamp row,
        equity = (if position s1 \<noteq> 0 then current_balance s1 + position s1 * close_price row
                  else current_balance s1)\<rparr>]\<rparr>"
    have step: "run_candles on_candle (row # rows) st self = run_candles on_candle rows st1 s2"
      using Inr p by (simp add: s2_def Let_def)
    from Cons.IH [of st1 s2] obtain el where
      el: "equity_log (final_state (run_candles on_candle rows st1 s2)) = equity_log s2 @ el"
        "length el \<le> length rows"
        "\<forall>st' self'. run_candles on_candle rows st1 s2 = Inr (st', self') \<longrightarrow>
           length el = length rows"
        "data (final_state (run_candles on_candle rows st1 s2)) = data s2"
      by blast
    have "equity_log s2 = equity_log self @ [last (equity_log s2)]" "data s2 = data self"
      using fr by (simp_all add: s2_def)
    with el step show ?thesis
      by (intro exI [of _ "last (equity_log s2) # el"]) simp
  qed
qed

lemma display_results_frame:
  "equity_log (case_sum snd id (display_results self)) = equity_log self \<and>
   trade_log (case_sum snd id (display_results self)) = trade_log self \<and>
   current_balance (case_sum snd id (display_results self)) = current_balance self \<and>
   position (case_sum snd id (display_results self)) = position self \<and>
   entry_price (case_sum snd id (display_results self)) = entry_price self \<and>
   (data self = [] \<and> display_results self = Inl (IndexError, print self Results_header) \<or>
    data self \<noteq> [] \<and> (\<exists>self'. display_results self = Inr self'))"
  by (simp add: display_results_def Let_def)

lemma run_backtest_final_state:
  fixes on_candle :: "'st strategy" and st :: "'st" and self :: backtester
  defines "loop \<equiv> run_candles on_candle (data self) st (print self Starting_backtest)"
  shows "equity_log (final_state (run_backtest on_candle st self)) =
           equity_log (final_state loop) \<and>
         trade_log (final_state (run_backtest on_candle st self)) =
           trade_log (final_state loop) \<and>
         current_balance (final_state (run_backtest on_candle st self)) =
           current_balance (final_state loop) \<and>
         position (final_state (run_backtest on_candle st self)) =
           position (final_state loop) \<and>
         entry_price (final_state (run_backtest on_candle st self)) =
           entry_price (final_state loop) \<and>
         outcome (run_backtest on_candle st self) =
           (case outcome loop of
              Inl x \<Rightarrow> Inl x
            | Inr st' \<Rightarrow> if data self = [] then Inl IndexError else Inr st')"
proof -
  have eq: "run_backtest on_candle st self =
      (case loop of
         Inl x \<Rightarrow> Inl x
       | Inr (st', self1) \<Rightarrow>
           (case display_results (print self1 Backtest_completed) of
              Inl x \<Rightarrow> Inl x
            | Inr self2 \<Rightarrow> Inr (st', self2)))"
    by (simp add: run_backtest_def Let_def loop_def)
  show ?thesis
  proof (cases loop)
    case (Inl e)
    then show ?thesis
      by (cases e) (simp add: eq)
  next
    case (Inr p)
    obtain st' s1 where p: "p = (st', s1)" by (cases p)
    have "data (final_state loop) = data (print self Starting_backtest)"
      unfolding loop_def
      using run_candles_equity_log [of on_candle "data self" st "print self Starting_backtest"]
      by blast
    with Inr p have d: "data (print s1 Backtest_completed) = data self"
      by simp
    from display_results_frame [of "print s1 Backtest_completed"] d Inr p
    show ?thesis
      by (auto simp: eq)
  qed
qed

section \<open>Equity samples\<close>

text \<open>
  Claim C7. When the loop of \<^verbatim>\<open>run_backtest\<close> has reached candle \<open>i\<close> in the state \<open>s_i\<close>
  and the callback returns there with the state \<open>s'\<close>, the callback has not touched
  the equity log, the loop appends one sample to it right then, and that sample carries
  the timestamp of the candle and the equity
  \<open>current_balance s' + position s' \<times> close_price\<close>, whether or not an order was
  executed. It is the \<open>i\<close>-th sample the run adds to the log; the run adds at most one per
  candle, and exactly one per candle when it returns.
\<close>

theorem equity_sample_per_candle:
  assumes i: "i < length (data self)"
    and reach: "run_candles on_candle (take i (data self)) st (print self Starting_backtest)
                  = Inr (st_i, s_i)"
    and cb: "run_callback (on_candle st_i (data self ! i) (view s_i)) s_i = Inr (st', s')"
  shows "equity_log s' = equity_log s_i \<and>
         length (equity_log s_i) = length (equity_log self) + i \<and>
         run_candles on_candle (take (Suc i) (data self)) st (print self Starting_backtest)
           = Inr (st', s'\<lparr>equity_log := equity_log s' @
                [\<lparr>e_timestamp = c_timestamp (data self ! i),
                  equity = current_balance s' + position s' * close_price (data self ! i)\<rparr>]\<rparr>) \<and>
         equity_log (final_state (run_backtest on_candle st self)) ! (length (equity_log self) + i)
           = \<lparr>e_timestamp = c_timestamp (data self ! i),
              equity = current_balance s' + position s' * close_price (data self ! i)\<rparr> \<and>
         length (equity_log (final_state (run_backtest on_candle st self)))
           \<le> length (equity_log self) + length (data self) \<and>
         (\<forall>st_f self_f. run_backtest on_candle st self = Inr (st_f, self_f) \<longrightarrow>
            length (equity_log self_f) = length (equity_log self) + length (data self))"
proof -
  let ?cs = "data self" and ?s0 = "print self Starting_backtest"
  let ?row = "data self ! i"
  let ?sample = "\<lparr>e_timestamp = c_timestamp ?row,
                  equity = current_balance s' + position s' * close_price ?row\<rparr>"
  let ?s2 = "s'\<lparr>equity_log := equity_log s' @ [?sample]\<rparr>"
  have same: "equity_log s' = equity_log s_i"
    using run_callback_frame [of "on_candle st_i ?row (view s_i)" s_i] cb by simp
  from run_candles_equity_log [of on_candle "take i ?cs" st ?s0] reach i
  obtain el_i where el_i: "equity_log s_i = equity_log self @ el_i" "length el_i = i"
    by auto
  have one: "run_candles on_candle [?row] st_i s_i = Inr (st', ?s2)"
    using cb by (simp add: Let_def)
  have "take (Suc i) ?cs = take i ?cs @ [?row]"
    using i by (simp add: take_Suc_conv_app_nth)
  then have upto: "run_candles on_candle (take (Suc i) ?cs) st ?s0 = Inr (st', ?s2)"
    using reach one by (simp add: run_candles_append)
  have "?cs = take (Suc i) ?cs @ drop (Suc i) ?cs"
    by simp
  then have "run_candles on_candle ?cs st ?s0 =
      (case run_candles on_candle (take (Suc i) ?cs) st ?s0 of
         Inl x \<Rightarrow> Inl x
       | Inr (st', self') \<Rightarrow> run_candles on_candle (drop (Suc i) ?cs) st' self')"
    using run_candles_append [of on_candle "take (Suc i) ?cs" "drop (Suc i) ?cs" st ?s0]
    by simp
  then have whole: "run_candles on_candle ?cs st ?s0 =
      run_candles on_candle (drop (Suc i) ?cs) st' ?s2"
    by (simp add: upto)
  from run_candles_equity_log [of on_candle "drop (Suc i) ?cs" st' ?s2]
  obtain el where el:
    "equity_log (final_state (run_candles on_candle ?cs st ?s0)) = equity_log ?s2 @ el"
    "length el \<le> length ?cs - Suc i"
    unfolding whole by auto
  have log: "equity_log (final_state (run_backtest on_candle st self))
               = equity_log self @ el_i @ [?sample] @ el"
    using run_backtest_final_state [of on_candle st self] el(1) same el_i(1) by simp
  have nth: "equity_log (final_state (run_backtest on_candle st self))
               ! (length (equity_log self) + i) = ?sample"
    unfolding log using el_i(2) by (simp add: nth_append)
  have le: "length (equity_log (final_state (run_backtest on_candle st self)))
              \<le> length (equity_log self) + length ?cs"
    unfolding log using el_i(2) el(2) i by simp
  have full: "length (equity_log self_f) = length (equity_log self) + length ?cs"
    if ret: "run_backtest on_candle st self = Inr (st_f, self_f)" for st_f self_f
  proof -
    from run_backtest_final_state [of on_candle st self] ret
    have fin: "equity_log self_f = equity_log (final_state (run_candles on_candle ?cs st ?s0))"
      and out: "(case outcome (run_candles on_candle ?cs st ?s0) of
                   Inl x \<Rightarrow> Inl x
                 | Inr st' \<Rightarrow> if ?cs = [] then Inl IndexError else Inr st') = Inr st_f"
      by simp_all
    from out obtain s1 where r: "run_candles on_candle ?cs st ?s0 = Inr (st_f, s1)"
      by (cases "run_candles on_candle ?cs st ?s0") (auto split: if_splits)
    from run_candles_equity_log [of on_candle ?cs st ?s0] r fin show ?thesis
      by auto
  qed
  from same el_i upto nth le full show ?thesis
    by simp
qed

text \<open>One bullish candle: the reference strategy buys at 110 with the whole balance.\<close>

theorem equity_sample_per_candle_witness:
  "0 < length (data (init [\<lparr>c_timestamp = 1, open_price = 100, high_price = 110,
       low_price = 100, close_price = 110, volume = 1\<rparr>] 10000 0)) \<and>
   (\<exists>s_i s'.
      run_candles Strategy_on_candle
        (take 0 (data (init [\<lparr>c_timestamp = 1, open_price = 100, high_price = 110,
           low_price = 100, close_price = 110, volume = 1\<rparr>] 10000 0))) 1
        (print (init [\<lparr>c_timestamp = 1, open_price = 100, high_price = 110,
           low_price = 100, close_price = 110, volume = 1\<rparr>] 10000 0) Starting_backtest)
        = Inr (1, s_i) \<and>
      run_callback (Strategy_on_candle 1
        (data (init [\<lparr>c_timestamp = 1, open_price = 100, high_price = 110,
           low_price = 100, close_price = 110, volume = 1\<rparr>] 10000 0) ! 0) (view s_i)) s_i
        = Inr (1, s') \<and>
      current_balance s' = 0 \<and> position s' = 1000 / 11) \<and>
   equity_log (final_state (run_backtest Strategy_on_candle 1
     (init [\<lparr>c_timestamp = 1, open_price = 100, high_price = 110,
        low_price = 100, close_price = 110, volume = 1\<rparr>] 10000 0))) ! 0
     = \<lparr>e_timestamp = 1, equity = 10000\<rparr>"
proof -
  let ?self = "init [\<lparr>c_timestamp = 1, open_price = 100, high_price = 110,
    low_price = 100, close_price = 110, volume = 1\<rparr>] 10000 0"
  let ?s0 = "print ?self Starting_backtest"
  have i: "0 < length (data ?self)"
    by (simp add: init_def)
  have reach: "run_candles Strategy_on_candle (take 0 (data ?self)) 1 ?s0 = Inr (1, ?s0)"
    by simp
  have "\<exists>s'. run_callback (Strategy_on_candle 1 (data ?self ! 0) (view ?s0)) ?s0 = Inr (1, s') \<and>
          current_balance s' = 0 \<and> position s' = 1000 / 11"
    by (simp add: Strategy_on_candle_def accessor_defs open_long_eq init_def print_def)
  then obtain s' where cb:
    "run_callback (Strategy_on_candle 1 (data ?self ! 0) (view ?s0)) ?s0 = Inr (1, s')"
    and s': "current_balance s' = 0" "position s' = 1000 / 11"
    by blast
  from equity_sample_per_candle [OF i reach cb]
  have "equity_log (final_state (run_backtest Strategy_on_candle 1 ?self)) ! 0
          = \<lparr>e_timestamp = 1, equity = 10000\<rparr>"
    by (simp add: s' init_def)
  with i reach cb s' show ?thesis
    by blast
qed

section \<open>The failed close of a short\<close>

text \<open>
  Claim C9 against the code. Balance 10000, fee 0.075%, the reference strategy entering
  with 100% of the balance; the candles close at 50 (bearish: a short is opened), 200 and
  220 (bullish: \<^verbatim>\<open>close_short\<close> is tried). At 200 the buy-back costs 39999.9775 against a
  balance of 19992.5: \<^verbatim>\<open>close_short\<close> prints its critical message and returns False, the
  value \<^verbatim>\<open>close_long\<close> returns for an ordinary rejection in the same state. The loop
  goes on: the third candle is processed, the order fails again, three equity samples
  are logged and the run ends normally with the short still open.
\<close>

theorem fatal_close_short_does_not_halt:
  "close_short
     ((init [] 10000 (3/4000))\<lparr>current_balance := 39985/2, position := - (3997/20),
        entry_price := 50\<rparr>) 2 200
   = Inr (False, print
       ((init [] 10000 (3/4000))\<lparr>current_balance := 39985/2, position := - (3997/20),
          entry_price := 50\<rparr>)
       (Critical_insufficient_balance_simulation_aborted 2 (39985/2) (15999991/400))) \<and>
   close_long
     ((init [] 10000 (3/4000))\<lparr>current_balance := 39985/2, position := - (3997/20),
        entry_price := 50\<rparr>) 2 200
   = Inr (False, print
       ((init [] 10000 (3/4000))\<lparr>current_balance := 39985/2, position := - (3997/20),
          entry_price := 50\<rparr>)
       (Err_no_long_to_close 2)) \<and>
   outcome (run_backtest Strategy_on_candle 1
     (init [\<lparr>c_timestamp = 1, open_price = 100, high_price = 100, low_price = 50,
              close_price = 50, volume = 1\<rparr>,
            \<lparr>c_timestamp = 2, open_price = 50, high_price = 200, low_price = 50,
              close_price = 200, volume = 1\<rparr>,
            \<lparr>c_timestamp = 3, open_price = 200, high_price = 220, low_price = 200,
              close_price = 220, volume = 1\<rparr>] 10000 (3/4000))) = Inr 1 \<and>
   equity_log (final_state (run_backtest Strategy_on_candle 1
     (init [\<lparr>c_timestamp = 1, open_price = 100, high_price = 100, low_price = 50,
              close_price = 50, volume = 1\<rparr>,
            \<lparr>c_timestamp = 2, open_price = 50, high_price = 200, low_price = 50,
              close_price = 200, volume = 1\<rparr>,
            \<lparr>c_timestamp = 3, open_price = 200, high_price = 220, low_price = 200,
              close_price = 220, volume = 1\<rparr>] 10000 (3/4000))))
     = [\<lparr>e_timestamp = 1, equity = 10000\<rparr>,
        \<lparr>e_timestamp = 2, equity = - (39955/2)\<rparr>,
        \<lparr>e_timestamp = 3, equity = - (47949/2)\<rparr>] \<and>
   position (final_state (run_backtest Strategy_on_candle 1
     (init [\<lparr>c_timestamp = 1, open_price = 100, high_price = 100, low_price = 50,
              close_price = 50, volume = 1\<rparr>,
            \<lparr>c_timestamp = 2, open_price = 50, high_price = 200, low_price = 50,
              close_price = 200, volume = 1\<rparr>,
            \<lparr>c_timestamp = 3, open_price = 200, high_price = 220, low_price = 200,
              close_price = 220, volume = 1\<rparr>] 10000 (3/4000)))) = - (3997/20) \<and>
   stdout (final_state (run_backtest Strategy_on_candle 1
     (init [\<lparr>c_timestamp = 1, open_price = 100, high_price = 100, low_price = 50,
              close_price = 50, volume = 1\<rparr>,
            \<lparr>c_timestamp = 2, open_price = 50, high_price = 200, low_price = 50,
              close_price = 200, volume = 1\<rparr>,
            \<lparr>c_timestamp = 3, open_price = 200, high_price = 220, low_price = 200,
              close_price = 220, volume = 1\<rparr>] 10000 (3/4000))))
     = [Initialized 10000 (3/40) 3, Starting_backtest,
        Short_opened 1 (3997/20) 50 (19985/2) 100 (39985/2) (- (3997/20)),
        Critical_insufficient_balance_simulation_aborted 2 (39985/2) (15999991/400),
        Critical_insufficient_balance_simulation_aborted 3 (39985/2) (175999901/4000),
        Backtest_completed, Results_header,
        Final_equity_with_open_position 220 (- (47949/2)),
        Total_profit_loss (- (67949/2)), Percentage_profit_loss (- (67949/200)),
        Trade_counts 1 0 1, Closed_pnl 0]"
  by (simp add: run_backtest_def display_results_def Strategy_on_candle_def accessor_defs
      open_short_eq close_short_eq close_long_eq init_def print_def Let_def)

end
